theory Spec2Isabelle
  imports Complex_Main "HOL-Library.Log_Nat"
begin

section \<open>Python built-ins used by the decoder\<close>

text \<open>
  The decoder of \<^verbatim>\<open>model.py\<close> reads its encoding with three built-ins:
  \<^verbatim>\<open>str.split\<close>, \<^verbatim>\<open>int\<close> and \<^verbatim>\<open>float\<close>. A string is a list of characters with the code
  points 0 to 255; a failed conversion is \<open>None\<close> (Python raises \<^verbatim>\<open>ValueError\<close>).
\<close>

subsection \<open>\<^verbatim>\<open>str.split(sep)\<close> with a one-character separator\<close>

text \<open>
  \<^verbatim>\<open>s.split('-')\<close> cuts at every separator and keeps empty pieces:
  \<^verbatim>\<open>''.split('-') == ['']\<close>, \<^verbatim>\<open>'a--b'.split('-') == ['a', '', 'b']\<close>.
\<close>

fun str_split :: "char \<Rightarrow> string \<Rightarrow> string list" where
  "str_split sep [] = [[]]"
| "str_split sep (c # cs) =
     (if c = sep then [] # str_split sep cs
      else (case str_split sep cs of
              [] \<Rightarrow> [[c]]
            | t # ts \<Rightarrow> (c # t) # ts))"

subsection \<open>Characters\<close>

definition isdigit :: "char \<Rightarrow> bool" where
  "isdigit c = (let n = (of_char c :: nat) in 48 \<le> n \<and> n \<le> 57)"

definition digit_val :: "char \<Rightarrow> int" where
  "digit_val c = of_char c - 48"

text \<open>
  White space that \<^verbatim>\<open>int\<close> and \<^verbatim>\<open>float\<close> strip from both ends: tab, line feed,
  vertical tab, form feed, carriage return and the space, and of the code points from
  127 on the two that are white space, 0x85 (next line) and 0xA0 (no-break space), which
  the conversions first turn into spaces. The separators 0x1C to 0x1F are not stripped.
\<close>

definition isspace :: "char \<Rightarrow> bool" where
  "isspace c =
     (let n = (of_char c :: nat) in (9 \<le> n \<and> n \<le> 13) \<or> n = 32 \<or> n = 133 \<or> n = 160)"

definition strip :: "string \<Rightarrow> string" where
  "strip s = rev (dropWhile isspace (rev (dropWhile isspace s)))"

definition lower :: "char \<Rightarrow> char" where
  "lower c =
     (let n = (of_char c :: nat) in if 65 \<le> n \<and> n \<le> 90 then char_of (n + 32) else c)"

text \<open>The value of a run of decimal digits, most significant first.\<close>

definition digits_val :: "string \<Rightarrow> int" where
  "digits_val ds = foldl (\<lambda>acc c. 10 * acc + digit_val c) 0 ds"

text \<open>An optional sign in front: the flag is True for a minus.\<close>

fun split_sign :: "string \<Rightarrow> bool \<times> string" where
  "split_sign [] = (False, [])"
| "split_sign (c # cs) =
     (if c = CHR ''-'' then (True, cs)
      else if c = CHR ''+'' then (False, cs)
      else (False, c # cs))"

subsection \<open>\<^verbatim>\<open>int(s)\<close>, base ten\<close>

text \<open>
  After the sign come one or more digits; a single underscore may stand between two
  digits. \<open>int_digits\<close> checks that shape and returns the digits without underscores.
  The result is an unbounded integer, but a literal of more than 4300 digits is refused
  (the default limit of the interpreter on the digits of an integer literal; releases
  older than the limit are not modelled).
\<close>

definition max_str_digits :: nat where
  "max_str_digits = 4300"

fun int_digits :: "string \<Rightarrow> string option" where
  "int_digits [] = None"
| "int_digits [c] = (if isdigit c then Some [c] else None)"
| "int_digits (c # d # cs) =
     (if \<not> isdigit c then None
      else if d = CHR ''_'' then map_option ((#) c) (int_digits cs)
      else map_option ((#) c) (int_digits (d # cs)))"

definition py_int :: "string \<Rightarrow> int option" where
  "py_int s =
     (case split_sign (strip s) of
        (neg, body) \<Rightarrow>
          (case int_digits body of
             None \<Rightarrow> None
           | Some ds \<Rightarrow>
               if max_str_digits < length ds then None
               else Some (if neg then - digits_val ds else digits_val ds)))"

subsection \<open>\<^verbatim>\<open>float(s)\<close>\<close>

text \<open>
  A Python float is an IEEE 754 binary64 number. The finite ones are carried by their
  exact rational value.
\<close>

datatype pyfloat = Finite rat | PosInf | NegInf | NaN

text \<open>\<open>m > c\<close> for a float \<open>m\<close> and a finite constant \<open>c\<close>; every comparison with a NaN is false.\<close>

fun float_gt :: "pyfloat \<Rightarrow> rat \<Rightarrow> bool" where
  "float_gt (Finite r) c = (c < r)"
| "float_gt PosInf c = True"
| "float_gt NegInf c = False"
| "float_gt NaN c = False"

text \<open>Rounding to the nearest integer, a tie going to the even neighbour.\<close>

definition round_half_even :: "rat \<Rightarrow> int" where
  "round_half_even q =
     (let f = \<lfloor>q\<rfloor>; d = q - of_int f
      in if d < 1 / 2 then f
         else if 1 / 2 < d then f + 1
         else if even f then f else f + 1)"

text \<open>\<open>ilog2 q\<close> is the exponent \<open>e\<close> with \<open>2 ^ e \<le> q < 2 ^ (e + 1)\<close>, for positive \<open>q\<close>.\<close>

definition ilog2 :: "rat \<Rightarrow> int" where
  "ilog2 q =
     (case quotient_of q of
        (a, b) \<Rightarrow>
          (let e0 = bitlen a - bitlen b
           in if 2 powi e0 \<le> q then e0 else e0 - 1))"

text \<open>
  The binary64 number nearest to a non-negative rational (53 significant bits, least
  exponent -1022, ties to even); a result of \<open>2 ^ 1024\<close> or more is infinity.
  \<open>None\<close> stands for infinity here.
\<close>

definition binary64 :: "rat \<Rightarrow> rat option" where
  "binary64 q =
     (if q \<le> 0 then Some 0
      else let e = max (ilog2 q) (- 1022);
               ulp = 2 powi (e - 52);
               r = of_int (round_half_even (q / ulp)) * ulp
           in if 2 powi 1024 \<le> r then None else Some r)"

definition to_float :: "bool \<Rightarrow> rat \<Rightarrow> pyfloat" where
  "to_float neg q =
     (case binary64 q of
        None \<Rightarrow> (if neg then NegInf else PosInf)
      | Some r \<Rightarrow> Finite (if neg then - r else r))"

text \<open>
  Underscores of a float literal: each one stands after a digit and before a digit.
  The second argument is the character before the current position.
\<close>

fun drop_underscores :: "string \<Rightarrow> char option \<Rightarrow> string option" where
  "drop_underscores [] prev = (if prev = Some CHR ''_'' then None else Some [])"
| "drop_underscores (c # cs) prev =
     (if c = CHR ''_'' then
        (case prev of
           None \<Rightarrow> None
         | Some p \<Rightarrow> if isdigit p then drop_underscores cs (Some c) else None)
      else if prev = Some CHR ''_'' \<and> \<not> isdigit c then None
      else map_option ((#) c) (drop_underscores cs (Some c)))"

text \<open>
  The exponent part: nothing, or \<^verbatim>\<open>e\<close> or \<^verbatim>\<open>E\<close>, an optional sign and one or more
  digits, up to the end of the string.
\<close>

definition parse_exponent :: "string \<Rightarrow> int option" where
  "parse_exponent s =
     (case s of
        [] \<Rightarrow> Some 0
      | c # cs \<Rightarrow>
          if c = CHR ''e'' \<or> c = CHR ''E'' then
            (case split_sign cs of
               (neg, ds) \<Rightarrow>
                 if ds \<noteq> [] \<and> list_all isdigit ds
                 then Some (if neg then - digits_val ds else digits_val ds)
                 else None)
          else None)"

text \<open>
  A decimal literal without sign: digits, an optional point and more digits (at least
  one digit in all), an optional exponent. The value is exact.
\<close>

definition parse_decimal :: "string \<Rightarrow> rat option" where
  "parse_decimal s =
     (let ip = takeWhile isdigit s; r1 = dropWhile isdigit s;
          has_point = (r1 \<noteq> [] \<and> hd r1 = CHR ''.'');
          r2 = (if has_point then tl r1 else r1);
          fp = (if has_point then takeWhile isdigit r2 else []);
          r3 = (if has_point then dropWhile isdigit r2 else r2)
      in if ip = [] \<and> fp = [] then None
         else (case parse_exponent r3 of
                 None \<Rightarrow> None
               | Some e \<Rightarrow>
                   Some (of_int (digits_val (ip @ fp)) * 10 powi (e - int (length fp)))))"

definition parse_inf_nan :: "bool \<Rightarrow> string \<Rightarrow> pyfloat option" where
  "parse_inf_nan neg s =
     (let l = map lower s
      in if l = ''inf'' \<or> l = ''infinity'' then Some (if neg then NegInf else PosInf)
         else if l = ''nan'' then Some NaN
         else None)"

definition py_float :: "string \<Rightarrow> pyfloat option" where
  "py_float s =
     (case drop_underscores (strip s) None of
        None \<Rightarrow> None
      | Some u \<Rightarrow>
          (case split_sign u of
             (neg, body) \<Rightarrow>
               (case parse_decimal body of
                  Some q \<Rightarrow> Some (to_float neg q)
                | None \<Rightarrow> parse_inf_nan neg body)))"

section \<open>Tensors and the operators of the tensor library\<close>

text \<open>
  The claims are about the shapes of tensors, so a tensor is modelled by its shape, the
  list of its dimension sizes. Moving a tensor to a device (\<^verbatim>\<open>.to(device)\<close>) does not
  change its shape and is left out; the device tag is carried by no definition.
  The exceptions that can arise are those of Python and of the tensor library.
\<close>

type_synonym shape = "nat list"

datatype error =
  ValueError | RuntimeError | IndexError | AttributeError | TypeError | OverflowError | MemoryError

text \<open>
  \<^verbatim>\<open>F.pad(x, (left, right, top, bottom))\<close>: the last dimension grows by
  \<open>left + right\<close>, the one before by \<open>top + bottom\<close>. A negative amount crops; the
  library refuses a tensor with fewer than two dimensions and a negative result size.
\<close>

definition F_pad :: "shape \<Rightarrow> int \<times> int \<times> int \<times> int \<Rightarrow> error + shape" where
  "F_pad x p =
     (case p of
        (pad_left, pad_right, pad_top, pad_bottom) \<Rightarrow>
          if length x < 2 then Inl RuntimeError
          else let n = length x;
                   h = int (x ! (n - 2)) + pad_top + pad_bottom;
                   w = int (x ! (n - 1)) + pad_left + pad_right
               in if h < 0 \<or> w < 0 then Inl RuntimeError
                  else Inr (take (n - 2) x @ [nat h, nat w]))"

text \<open>
  \<^verbatim>\<open>nn.Conv2d(c_in, c_out, kernel_size, stride, padding)\<close> on a batch \<open>[N, C, H, W]\<close>.
  The library refuses a weight with fewer output channels than groups (one group here),
  an input whose channel count is not \<open>c_in\<close>, and a filter larger than the padded input.
  Each spatial size becomes \<open>(S + 2 * padding - filter) div stride + 1\<close>. The output has
  \<open>c_out\<close> channels, except that an input without channels (then \<open>c_in = 0\<close>) gives an
  output without channels. The block below calls it on tensors of four dimensions only;
  other ranks are refused here.
\<close>

definition Conv2d :: "int \<Rightarrow> int \<Rightarrow> nat \<times> nat \<Rightarrow> nat \<times> nat \<Rightarrow> nat \<Rightarrow> shape \<Rightarrow> error + shape" where
  "Conv2d ci co ksize strd pad x =
     (case x of
        [n, c, h, w] \<Rightarrow>
          if co < 1 then Inl RuntimeError
          else if int c \<noteq> ci then Inl RuntimeError
          else if fst strd = 0 \<or> snd strd = 0 then Inl RuntimeError
          else if h + 2 * pad < fst ksize \<or> w + 2 * pad < snd ksize then Inl RuntimeError
          else Inr [n, if c = 0 then 0 else nat co,
                    (h + 2 * pad - fst ksize) div fst strd + 1,
                    (w + 2 * pad - snd ksize) div snd strd + 1]
      | _ \<Rightarrow> Inl RuntimeError)"

text \<open>
  The output size of a pooling window along one axis (floor mode, dilation 1):
  \<open>floor ((S + 2 * padding - (window - 1) - 1) / stride) + 1\<close>.
\<close>

definition pooling_output_size :: "nat \<Rightarrow> nat \<Rightarrow> nat \<Rightarrow> nat \<Rightarrow> int" where
  "pooling_output_size s ksize strd pad =
     (int s + 2 * int pad - (int ksize - 1) - 1) div int strd + 1"

text \<open>
  \<^verbatim>\<open>nn.MaxPool2d(kernel_size, stride, padding)\<close> and \<^verbatim>\<open>nn.AvgPool2d(kernel_size, stride, padding)\<close>
  have the same shape rule. The library refuses an empty window or stride, a padding of
  more than half the window, an input with an empty channel or spatial dimension, and an
  output that would be empty. Ranks other than four are refused here: in a decoded model a
  pooling layer always follows a convolution block.
\<close>

definition Pool2d :: "nat \<times> nat \<Rightarrow> nat \<times> nat \<Rightarrow> nat \<times> nat \<Rightarrow> shape \<Rightarrow> error + shape" where
  "Pool2d ksize strd pad x =
     (case x of
        [n, c, h, w] \<Rightarrow>
          if fst ksize = 0 \<or> snd ksize = 0 \<or> fst strd = 0 \<or> snd strd = 0 then Inl RuntimeError
          else if fst ksize div 2 < fst pad \<or> snd ksize div 2 < snd pad then Inl RuntimeError
          else if c = 0 \<or> h = 0 \<or> w = 0 then Inl RuntimeError
          else let oh = pooling_output_size h (fst ksize) (fst strd) (fst pad);
                   ow = pooling_output_size w (snd ksize) (snd strd) (snd pad)
               in if oh < 1 \<or> ow < 1 then Inl RuntimeError
                  else Inr [n, c, nat oh, nat ow]
      | _ \<Rightarrow> Inl RuntimeError)"

text \<open>
  \<^verbatim>\<open>x.view(-1, dim)\<close>: the rows are inferred from the number of elements. The library
  refuses \<open>dim = 0\<close> (the row count is ambiguous) and a \<open>dim\<close> that does not divide the
  number of elements.
\<close>

definition view_rows :: "shape \<Rightarrow> nat \<Rightarrow> error + shape" where
  "view_rows x d =
     (if d = 0 then Inl RuntimeError
      else if prod_list x mod d \<noteq> 0 then Inl RuntimeError
      else Inr [prod_list x div d, d])"

text \<open>
  \<^verbatim>\<open>nn.Linear(in_features, out_features)\<close> replaces the last dimension, which must be
  \<open>in_features\<close>.
\<close>

definition Linear :: "nat \<Rightarrow> nat \<Rightarrow> shape \<Rightarrow> error + shape" where
  "Linear in_features out_features x =
     (if x = [] \<or> last x \<noteq> in_features then Inl RuntimeError
      else Inr (butlast x @ [out_features]))"

text \<open>
  \<^verbatim>\<open>nn.BatchNorm2d(num_features)\<close> keeps the shape. It expects four dimensions
  (\<^verbatim>\<open>ValueError\<close> otherwise), and a module in training mode, as a new module is, refuses a
  batch with a single value per channel (\<^verbatim>\<open>ValueError\<close>). A tensor without elements is
  then returned as it is, scaled by the first weight (\<^verbatim>\<open>IndexError\<close> when there is no
  weight); any other tensor must have \<open>num_features\<close> channels. The rectified-linear
  activation keeps the shape.
\<close>

definition BatchNorm2d :: "int \<Rightarrow> shape \<Rightarrow> error + shape" where
  "BatchNorm2d num_features x =
     (case x of
        [n, c, h, w] \<Rightarrow>
          if n * h * w = 1 then Inl ValueError
          else if prod_list x = 0 then (if num_features < 1 then Inl IndexError else Inr x)
          else if int c \<noteq> num_features then Inl RuntimeError
          else Inr x
      | _ \<Rightarrow> Inl ValueError)"

definition relu :: "shape \<Rightarrow> shape" where
  "relu x = x"

section \<open>The layers: \<^verbatim>\<open>ConvolutionBlock\<close> and the pooling layers\<close>

text \<open>
  A decoded layer is a \<^verbatim>\<open>ConvolutionBlock(c_in, c_out, device)\<close>, a
  \<^verbatim>\<open>nn.MaxPool2d(kernel_size, stride, padding)\<close> or a
  \<^verbatim>\<open>nn.AvgPool2d(kernel_size, stride, padding)\<close>. Every block has the filter size
  \<open>(3, 3)\<close>, the stride \<open>(1, 1)\<close> and a convolution with padding 1.
\<close>

datatype layer =
    ConvolutionBlock (c_in: int) (c_out: int)
  | MaxPool2d "nat \<times> nat" "nat \<times> nat" "nat \<times> nat"
  | AvgPool2d "nat \<times> nat" "nat \<times> nat" "nat \<times> nat"

definition filter_size :: "nat \<times> nat" where
  "filter_size = (3, 3)"

definition conv_stride :: "nat \<times> nat" where
  "conv_stride = (1, 1)"

text \<open>
  The total padding along one axis, as \<^verbatim>\<open>ConvolutionBlock.padding\<close> computes it from
  the input size, the filter size and the stride.
\<close>

definition pad_along :: "nat \<Rightarrow> int \<Rightarrow> int \<Rightarrow> int" where
  "pad_along in_size filter_sz strd =
     (if int in_size mod strd = 0 then max (filter_sz - strd) 0
      else max (filter_sz - int in_size mod strd) 0)"

text \<open>
  The four amounts \<open>(pad_left, pad_right, pad_top, pad_bottom)\<close> for an input of height
  \<open>in_height\<close> and width \<open>in_width\<close>; the filter is 3 by 3 and \<open>strides = (None, 1, 1)\<close>.
\<close>

definition pad_amounts :: "nat \<Rightarrow> nat \<Rightarrow> int \<times> int \<times> int \<times> int" where
  "pad_amounts in_height in_width =
     (let filter_height = 3; filter_width = 3;
          stride_h = 1; stride_w = 1;
          pad_along_height = pad_along in_height filter_height stride_h;
          pad_along_width = pad_along in_width filter_width stride_w;
          pad_top = pad_along_height div 2;
          pad_bottom = pad_along_height - pad_top;
          pad_left = pad_along_width div 2;
          pad_right = pad_along_width - pad_left
      in (pad_left, pad_right, pad_top, pad_bottom))"

text \<open>
  \<^verbatim>\<open>ConvolutionBlock.padding\<close>. The assignment
  \<^verbatim>\<open>in_height, in_width = x.shape[2:]\<close> raises \<^verbatim>\<open>ValueError\<close> unless exactly two sizes
  follow the first two, that is unless the tensor has four dimensions.
\<close>

definition padding :: "shape \<Rightarrow> error + shape" where
  "padding x =
     (case drop 2 x of
        [in_height, in_width] \<Rightarrow> F_pad x (pad_amounts in_height in_width)
      | _ \<Rightarrow> Inl ValueError)"

text \<open>\<^verbatim>\<open>ConvolutionBlock.forward\<close>: pad, convolve, normalise, activate.\<close>

definition ConvolutionBlock_forward :: "int \<Rightarrow> int \<Rightarrow> shape \<Rightarrow> error + shape" where
  "ConvolutionBlock_forward ci co x =
     (case padding x of
        Inl e \<Rightarrow> Inl e
      | Inr x1 \<Rightarrow>
          (case Conv2d ci co filter_size conv_stride 1 x1 of
             Inl e \<Rightarrow> Inl e
           | Inr out \<Rightarrow>
               (case BatchNorm2d co out of
                  Inl e \<Rightarrow> Inl e
                | Inr out1 \<Rightarrow> Inr (relu out1))))"

fun layer_forward :: "layer \<Rightarrow> shape \<Rightarrow> error + shape" where
  "layer_forward (ConvolutionBlock ci co) x = ConvolutionBlock_forward ci co x"
| "layer_forward (MaxPool2d k s p) x = Pool2d k s p x"
| "layer_forward (AvgPool2d k s p) x = Pool2d k s p x"

text \<open>\<^verbatim>\<open>nn.Sequential\<close> applies the layers in list order and stops at the first exception.\<close>

fun Sequential :: "layer list \<Rightarrow> shape \<Rightarrow> error + shape" where
  "Sequential [] x = Inr x"
| "Sequential (l # ls) x =
     (case layer_forward l x of
        Inl e \<Rightarrow> Inl e
      | Inr y \<Rightarrow> Sequential ls y)"

section \<open>\<^verbatim>\<open>ModelFromDecoding\<close>\<close>

text \<open>
  Constructing a \<^verbatim>\<open>ConvolutionBlock\<close> builds \<^verbatim>\<open>nn.Conv2d(c_in, c_out, ...)\<close> and
  \<^verbatim>\<open>nn.BatchNorm2d(c_out)\<close>, which allocate their weights. The library raises for channel
  counts that it cannot represent or allocate: a count beyond the 64-bit range, or more
  memory than the machine has. Which counts are refused, and with which exception, is
  not fixed by \<^verbatim>\<open>model.py\<close>, so it is a parameter of the model: \<open>alloc c_in c_out\<close> is the
  exception raised while a block with these channel counts is built, or \<open>None\<close> when
  the block is built. The pooling layers only store their arguments.
\<close>

type_synonym allocator = "int \<Rightarrow> int \<Rightarrow> error option"

definition ConvolutionBlock_init :: "allocator \<Rightarrow> int \<Rightarrow> int \<Rightarrow> error + layer" where
  "ConvolutionBlock_init alloc ci co =
     (case alloc ci co of
        Some e \<Rightarrow> Inl e
      | None \<Rightarrow> Inr (ConvolutionBlock ci co))"

text \<open>
  The allocator of the examples: a library with memory to spare, which refuses only a
  negative channel count and one beyond the 64-bit range, that is, from
  \<open>2 ^ 63 = 9223372036854775808\<close> on.
\<close>

definition alloc64 :: allocator where
  "alloc64 ci co =
     (if ci < 0 \<or> co < 0 then Some RuntimeError
      else if 9223372036854775808 \<le> ci \<or> 9223372036854775808 \<le> co then Some TypeError
      else None)"

text \<open>
  The fields of an instance. \<open>softmax\<close> (the dimension of \<^verbatim>\<open>nn.Softmax(0)\<close>) and \<open>net\<close>
  are assigned after \<^verbatim>\<open>_decode\<close> has run; until then they are \<open>None\<close>.
\<close>

record ModelFromDecoding =
  architecture :: "layer list"
  enc :: string
  kernel_size :: "nat \<times> nat"
  pool_stride :: "nat \<times> nat"
  softmax :: "nat option"
  net :: "layer list option"

text \<open>A token after \<^verbatim>\<open>m = float(m) if '.' in m else int(m)\<close>.\<close>

datatype number = PyInt int | PyFloat pyfloat

definition convert :: "string \<Rightarrow> error + number" where
  "convert m =
     (if CHR ''.'' \<in> set m then
        (case py_float m of None \<Rightarrow> Inl ValueError | Some v \<Rightarrow> Inr (PyFloat v))
      else
        (case py_int m of None \<Rightarrow> Inl ValueError | Some n \<Rightarrow> Inr (PyInt n)))"

text \<open>
  One turn of the loop of \<^verbatim>\<open>_decode\<close> on the token \<open>m\<close>; the state is the local
  \<open>prev\<close> and the instance. An exception, of the conversion or of the constructor,
  leaves the state as it was before the turn.
\<close>

definition decode_step ::
  "allocator \<Rightarrow> string \<Rightarrow> int \<times> ModelFromDecoding \<Rightarrow> error + int \<times> ModelFromDecoding" where
  "decode_step alloc m st =
     (case st of
        (prev, self) \<Rightarrow>
          if m = ''-'' then Inr (prev, self)
          else (case convert m of
                  Inl e \<Rightarrow> Inl e
                | Inr (PyInt n) \<Rightarrow>
                    (case ConvolutionBlock_init alloc prev n of
                       Inl e \<Rightarrow> Inl e
                     | Inr conv \<Rightarrow>
                         Inr (n, self\<lparr>architecture := architecture self @ [conv]\<rparr>))
                | Inr (PyFloat v) \<Rightarrow>
                    Inr (prev,
                         self\<lparr>architecture := architecture self @
                           [if float_gt v (1 / 2)
                            then MaxPool2d (kernel_size self) (pool_stride self) (1, 1)
                            else AvgPool2d (kernel_size self) (pool_stride self) (1, 1)]\<rparr>)))"

text \<open>
  The loop over the tokens. The result is the exception, if any, together with the
  state reached: the layers appended before an exception stay in the list.
\<close>

fun decode_loop ::
  "allocator \<Rightarrow> string list \<Rightarrow> int \<times> ModelFromDecoding \<Rightarrow>
     error option \<times> int \<times> ModelFromDecoding" where
  "decode_loop alloc [] st = (None, st)"
| "decode_loop alloc (m # ms) st =
     (case decode_step alloc m st of
        Inl e \<Rightarrow> (Some e, st)
      | Inr st' \<Rightarrow> decode_loop alloc ms st')"

text \<open>\<^verbatim>\<open>ModelFromDecoding._decode\<close>: the stem first, then the tokens of the encoding.\<close>

definition decode :: "allocator \<Rightarrow> ModelFromDecoding \<Rightarrow> error option \<times> ModelFromDecoding" where
  "decode alloc self =
     (let prev = 16
      in case ConvolutionBlock_init alloc 3 prev of
           Inl e \<Rightarrow> (Some e, self)
         | Inr conv \<Rightarrow>
             (let self1 = self\<lparr>architecture := architecture self @ [conv]\<rparr>
              in case decode_loop alloc (str_split CHR ''-'' (enc self1)) (prev, self1) of
                   (r, _, self2) \<Rightarrow> (r, self2)))"

text \<open>\<^verbatim>\<open>ModelFromDecoding.__init__\<close>: an exception of \<^verbatim>\<open>_decode\<close> leaves no instance.\<close>

definition init :: "allocator \<Rightarrow> string \<Rightarrow> error + ModelFromDecoding" where
  "init alloc encoding =
     (let self = \<lparr>architecture = [], enc = encoding,
                   kernel_size = (2, 2), pool_stride = (2, 2),
                   softmax = None, net = None\<rparr>
      in case decode alloc self of
           (Some e, _) \<Rightarrow> Inl e
         | (None, self1) \<Rightarrow>
             Inr (self1\<lparr>softmax := Some 0, net := Some (architecture self1)\<rparr>))"

text \<open>
  \<^verbatim>\<open>ModelFromDecoding.forward\<close>. Reading \<^verbatim>\<open>x.shape[3]\<close> needs four dimensions; the dense
  layer is built for the flattened size and followed by the activation.
\<close>

definition forward :: "ModelFromDecoding \<Rightarrow> shape \<Rightarrow> error + shape" where
  "forward self x =
     (case net self of
        None \<Rightarrow> Inl AttributeError
      | Some layers \<Rightarrow>
          (case Sequential layers x of
             Inl e \<Rightarrow> Inl e
           | Inr x1 \<Rightarrow>
               if length x1 < 4 then Inl IndexError
               else let d = x1 ! 1 * x1 ! 2 * x1 ! 3
                    in (case view_rows x1 d of
                          Inl e \<Rightarrow> Inl e
                        | Inr x2 \<Rightarrow>
                            (case Linear (last x2) 10 x2 of
                               Inl e \<Rightarrow> Inl e
                             | Inr y \<Rightarrow> Inr (relu y)))))"

subsection \<open>The elements of the output\<close>

text \<open>
  \<open>m >= c\<close> for a float \<open>m\<close> and a finite constant \<open>c\<close>; false for a NaN.
\<close>

fun float_ge :: "pyfloat \<Rightarrow> rat \<Rightarrow> bool" where
  "float_ge (Finite r) c = (c \<le> r)"
| "float_ge PosInf c = True"
| "float_ge NegInf c = False"
| "float_ge NaN c = False"

text \<open>
  \<^verbatim>\<open>F.relu\<close> on one element: the larger of 0 and the element; a NaN stays a NaN.
\<close>

fun relu_value :: "pyfloat \<Rightarrow> pyfloat" where
  "relu_value (Finite r) = Finite (max 0 r)"
| "relu_value PosInf = PosInf"
| "relu_value NegInf = Finite 0"
| "relu_value NaN = NaN"

text \<open>A tensor with its elements, in row-major order.\<close>

record tensor =
  dims :: shape
  elems :: "pyfloat list"

definition F_relu :: "tensor \<Rightarrow> tensor" where
  "F_relu t = t\<lparr>elems := map relu_value (elems t)\<rparr>"

text \<open>
  The value that \<^verbatim>\<open>forward\<close> returns, \<^verbatim>\<open>F.relu(fc(x))\<close>. The elements of \<^verbatim>\<open>fc(x)\<close> depend on
  the input and on weights that the constructors draw at random, and the dense layer is
  drawn anew in every call: they are a parameter here, \<open>fc_x\<close>. The shape is that of
  \<open>forward\<close>. The field \<open>softmax\<close> is not read.
\<close>

definition forward_output :: "ModelFromDecoding \<Rightarrow> shape \<Rightarrow> pyfloat list \<Rightarrow> error + tensor" where
  "forward_output self x fc_x =
     (case forward self x of
        Inl e \<Rightarrow> Inl e
      | Inr s \<Rightarrow> Inr (F_relu \<lparr>dims = s, elems = fc_x\<rparr>))"

section \<open>Notions used in the statements\<close>

text \<open>The \<open>(c_in, c_out)\<close> pairs of the convolution blocks of a layer list, in list order.\<close>

fun conv_channels :: "layer list \<Rightarrow> (int \<times> int) list" where
  "conv_channels [] = []"
| "conv_channels (ConvolutionBlock ci co # ls) = (ci, co) # conv_channels ls"
| "conv_channels (MaxPool2d k s p # ls) = conv_channels ls"
| "conv_channels (AvgPool2d k s p # ls) = conv_channels ls"

text \<open>The chain \<open>p \<rightarrow> a, a \<rightarrow> b, b \<rightarrow> c, ...\<close> of the widths \<open>a, b, c, ...\<close> after \<open>p\<close>.\<close>

fun chain :: "int \<Rightarrow> int list \<Rightarrow> (int \<times> int) list" where
  "chain p [] = []"
| "chain p (a # as) = (p, a) # chain a as"

text \<open>The values of the integer tokens (the tokens without a point) of a token list.\<close>

definition integer_values :: "string list \<Rightarrow> int list" where
  "integer_values ms = List.map_filter (\<lambda>m. if CHR ''.'' \<in> set m then None else py_int m) ms"

definition integer_tokens :: "string \<Rightarrow> int list" where
  "integer_tokens encoding = integer_values (str_split CHR ''-'' encoding)"

text \<open>
  The layers that the loop of \<^verbatim>\<open>_decode\<close> appends for a token list, up to the first
  token whose conversion or whose block fails.
\<close>

fun token_layers ::
  "allocator \<Rightarrow> nat \<times> nat \<Rightarrow> nat \<times> nat \<Rightarrow> int \<Rightarrow> string list \<Rightarrow> layer list" where
  "token_layers alloc ks ps prev [] = []"
| "token_layers alloc ks ps prev (m # ms) =
     (if m = ''-'' then token_layers alloc ks ps prev ms
      else (case convert m of
              Inl e \<Rightarrow> []
            | Inr (PyInt n) \<Rightarrow>
                (case alloc prev n of
                   Some e \<Rightarrow> []
                 | None \<Rightarrow> ConvolutionBlock prev n # token_layers alloc ks ps n ms)
            | Inr (PyFloat v) \<Rightarrow>
                (if float_gt v (1 / 2) then MaxPool2d ks ps (1, 1) else AvgPool2d ks ps (1, 1))
                # token_layers alloc ks ps prev ms))"

text \<open>The exception that ends the loop of \<^verbatim>\<open>_decode\<close> on a token list, if any.\<close>

fun loop_error :: "allocator \<Rightarrow> int \<Rightarrow> string list \<Rightarrow> error option" where
  "loop_error alloc prev [] = None"
| "loop_error alloc prev (m # ms) =
     (if m = ''-'' then loop_error alloc prev ms
      else (case convert m of
              Inl e \<Rightarrow> Some e
            | Inr (PyInt n) \<Rightarrow>
                (case alloc prev n of
                   Some e \<Rightarrow> Some e
                 | None \<Rightarrow> loop_error alloc n ms)
            | Inr (PyFloat v) \<Rightarrow> loop_error alloc prev ms))"

text \<open>A token converts when \<^verbatim>\<open>float\<close> or \<^verbatim>\<open>int\<close>, whichever the loop calls, accepts it.\<close>

definition converts :: "string \<Rightarrow> bool" where
  "converts m = (case convert m of Inl e \<Rightarrow> False | Inr v \<Rightarrow> True)"


section \<open>Lemmas\<close>

lemma str_split_not_Nil: "str_split sep s \<noteq> []"
  by (induction s) (auto split: list.splits)

lemma str_split_no_sep: "t \<in> set (str_split sep s) \<Longrightarrow> sep \<notin> set t"
  by (induction s arbitrary: t) (auto split: list.splits if_splits)

lemma token_not_dash: "t \<in> set (str_split CHR ''-'' s) \<Longrightarrow> t \<noteq> ''-''"
  using str_split_no_sep by fastforce

lemma no_dash_token: "''-'' \<notin> set (str_split CHR ''-'' s)"
  using token_not_dash by blast


lemma convert_PyInt:
  "convert m = Inr (PyInt n) \<Longrightarrow> CHR ''.'' \<notin> set m \<and> py_int m = Some n"
  by (auto simp: convert_def split: if_splits option.splits)

lemma convert_PyFloat:
  "convert m = Inr (PyFloat v) \<Longrightarrow> CHR ''.'' \<in> set m \<and> py_float m = Some v"
  by (auto simp: convert_def split: if_splits option.splits)

lemma not_converts_dash: "\<not> converts ''-''"
  by (simp add: converts_def convert_def py_int_def strip_def isspace_def)

lemma integer_values_Nil: "integer_values [] = []"
  by (simp add: integer_values_def List.map_filter_simps)

lemma integer_values_dash: "integer_values (''-'' # ms) = integer_values ms"
  by (simp add: integer_values_def List.map_filter_simps py_int_def strip_def isspace_def)

lemma integer_values_PyInt:
  "convert m = Inr (PyInt n) \<Longrightarrow> integer_values (m # ms) = n # integer_values ms"
  by (auto simp: integer_values_def List.map_filter_simps dest: convert_PyInt)

lemma integer_values_PyFloat:
  "convert m = Inr (PyFloat v) \<Longrightarrow> integer_values (m # ms) = integer_values ms"
  by (auto simp: integer_values_def List.map_filter_simps dest: convert_PyFloat)

text \<open>The loop, as a function of the token list.\<close>

lemma decode_loop_eq:
  "\<exists>p. decode_loop alloc ms (prev, self) =
     (loop_error alloc prev ms, p,
      self\<lparr>architecture := architecture self @
              token_layers alloc (kernel_size self) (pool_stride self) prev ms\<rparr>)"
proof (induction ms arbitrary: prev self)
  case Nil
  then show ?case by simp
next
  case (Cons m ms)
  show ?case
  proof (cases "m = ''-''")
    case True
    with Cons.IH [of prev self] show ?thesis by (simp add: decode_step_def)
  next
    case nd: False
    show ?thesis
    proof (cases "convert m")
      case (Inl e)
      with nd show ?thesis by (simp add: decode_step_def)
    next
      case (Inr v)
      show ?thesis
      proof (cases v)
        case (PyInt n)
        show ?thesis
        proof (cases "alloc prev n")
          case None
          with nd Inr PyInt
            Cons.IH [of n "self\<lparr>architecture := architecture self @ [ConvolutionBlock prev n]\<rparr>"]
          show ?thesis by (simp add: decode_step_def ConvolutionBlock_init_def)
        next
          case (Some e)
          with nd Inr PyInt show ?thesis
            by (simp add: decode_step_def ConvolutionBlock_init_def)
        qed
      next
        case (PyFloat f)
        let ?l = "if float_gt f (1 / 2)
                  then MaxPool2d (kernel_size self) (pool_stride self) (1, 1)
                  else AvgPool2d (kernel_size self) (pool_stride self) (1, 1)"
        from nd Inr PyFloat Cons.IH [of prev "self\<lparr>architecture := architecture self @ [?l]\<rparr>"]
        show ?thesis by (simp add: decode_step_def)
      qed
    qed
  qed
qed

lemma decode_eq:
  "decode alloc self =
     (case alloc 3 16 of
        Some e \<Rightarrow> (Some e, self)
      | None \<Rightarrow>
          (loop_error alloc 16 (str_split CHR ''-'' (enc self)),
           self\<lparr>architecture := architecture self @ ConvolutionBlock 3 16 #
                   token_layers alloc (kernel_size self) (pool_stride self) 16
                     (str_split CHR ''-'' (enc self))\<rparr>))"
proof (cases "alloc 3 16")
  case (Some e)
  then show ?thesis by (simp add: decode_def ConvolutionBlock_init_def)
next
  case None
  let ?s1 = "self\<lparr>architecture := architecture self @ [ConvolutionBlock 3 16]\<rparr>"
  from decode_loop_eq [of alloc "str_split CHR ''-'' (enc self)" 16 ?s1]
  obtain p where "decode_loop alloc (str_split CHR ''-'' (enc self)) (16, ?s1) =
     (loop_error alloc 16 (str_split CHR ''-'' (enc self)), p,
      ?s1\<lparr>architecture := architecture ?s1 @
              token_layers alloc (kernel_size ?s1) (pool_stride ?s1) 16
                (str_split CHR ''-'' (enc self))\<rparr>)" by blast
  with None show ?thesis by (simp add: decode_def ConvolutionBlock_init_def)
qed

lemma init_eq:
  "init alloc e =
     (case alloc 3 16 of
        Some err \<Rightarrow> Inl err
      | None \<Rightarrow>
          (case loop_error alloc 16 (str_split CHR ''-'' e) of
             Some err \<Rightarrow> Inl err
           | None \<Rightarrow>
               Inr \<lparr>architecture = ConvolutionBlock 3 16 #
                      token_layers alloc (2, 2) (2, 2) 16 (str_split CHR ''-'' e),
                    enc = e, kernel_size = (2, 2), pool_stride = (2, 2), softmax = Some 0,
                    net = Some (ConvolutionBlock 3 16 #
                      token_layers alloc (2, 2) (2, 2) 16 (str_split CHR ''-'' e))\<rparr>))"
  by (simp add: init_def decode_eq split: option.splits)

lemma init_Inr:
  assumes "init alloc e = Inr model"
  shows "alloc 3 16 = None" and "loop_error alloc 16 (str_split CHR ''-'' e) = None"
    and "architecture model =
           ConvolutionBlock 3 16 # token_layers alloc (2, 2) (2, 2) 16 (str_split CHR ''-'' e)"
    and "net model = Some (architecture model)"
  using assms by (auto simp: init_eq split: option.splits)


lemma token_layers_conv_channels:
  "loop_error alloc prev ms = None \<Longrightarrow>
   conv_channels (token_layers alloc ks ps prev ms) = chain prev (integer_values ms)"
proof (induction ms arbitrary: prev)
  case Nil
  then show ?case by (simp add: integer_values_Nil)
next
  case (Cons m ms)
  show ?case
  proof (cases "m = ''-''")
    case True
    with Cons show ?thesis by (simp add: integer_values_dash)
  next
    case nd: False
    show ?thesis
    proof (cases "convert m")
      case (Inl e)
      with nd Cons.prems show ?thesis by simp
    next
      case (Inr v)
      show ?thesis
      proof (cases v)
        case (PyInt n)
        with Inr nd Cons.prems have a: "alloc prev n = None" and l: "loop_error alloc n ms = None"
          by (auto split: option.splits)
        from Inr PyInt have "integer_values (m # ms) = n # integer_values ms"
          by (simp add: integer_values_PyInt)
        with nd Inr PyInt a Cons.IH [OF l] show ?thesis by simp
      next
        case (PyFloat f)
        with Inr nd Cons.prems have l: "loop_error alloc prev ms = None" by simp
        from Inr PyFloat have "integer_values (m # ms) = integer_values ms"
          by (simp add: integer_values_PyFloat)
        with nd Inr PyFloat Cons.IH [OF l] show ?thesis by simp
      qed
    qed
  qed
qed

lemma token_layers_float:
  "loop_error alloc prev ms = None \<Longrightarrow> ''-'' \<notin> set ms \<Longrightarrow> i < length ms \<Longrightarrow>
   CHR ''.'' \<in> set (ms ! i) \<Longrightarrow>
   \<exists>v. py_float (ms ! i) = Some v \<and>
     token_layers alloc ks ps prev ms ! i =
       (if float_gt v (1 / 2) then MaxPool2d ks ps (1, 1) else AvgPool2d ks ps (1, 1))"
proof (induction ms arbitrary: prev i)
  case Nil
  then show ?case by simp
next
  case (Cons m ms)
  then have nd: "m \<noteq> ''-''" and rest: "''-'' \<notin> set ms" by auto
  show ?case
  proof (cases "convert m")
    case (Inl e)
    with nd Cons.prems show ?thesis by simp
  next
    case (Inr v)
    show ?thesis
    proof (cases v)
      case (PyInt n)
      with Inr nd Cons.prems have a: "alloc prev n = None" and l: "loop_error alloc n ms = None"
        by (auto split: option.splits)
      from Inr PyInt have np: "CHR ''.'' \<notin> set m" by (simp add: convert_PyInt)
      with Cons.prems(4) obtain j where j: "i = Suc j" by (cases i) auto
      with Cons.prems have "j < length ms" "CHR ''.'' \<in> set (ms ! j)" by simp_all
      from Cons.IH [OF l rest this] nd Inr PyInt a j show ?thesis by simp
    next
      case (PyFloat f)
      with Inr nd Cons.prems have l: "loop_error alloc prev ms = None" by simp
      from Inr PyFloat have f: "py_float m = Some f" by (simp add: convert_PyFloat)
      show ?thesis
      proof (cases i)
        case 0
        with nd Inr PyFloat f show ?thesis by simp
      next
        case (Suc j)
        with Cons.prems have "j < length ms" "CHR ''.'' \<in> set (ms ! j)" by simp_all
        from Cons.IH [OF l rest this] nd Inr PyFloat Suc show ?thesis by simp
      qed
    qed
  qed
qed

lemma token_layers_kinds:
  "l \<in> set (token_layers alloc ks ps prev ms) \<Longrightarrow>
   (\<exists>ci co. l = ConvolutionBlock ci co) \<or> l = MaxPool2d ks ps (1, 1) \<or> l = AvgPool2d ks ps (1, 1)"
proof (induction ms arbitrary: prev)
  case Nil
  then show ?case by simp
next
  case (Cons m ms)
  show ?case
  proof (cases "m = ''-''")
    case True
    with Cons show ?thesis by simp
  next
    case False
    show ?thesis
    proof (cases "convert m")
      case (Inl e)
      with False Cons.prems show ?thesis by simp
    next
      case (Inr v)
      with False Cons.prems Cons.IH show ?thesis
        by (cases v) (auto split: if_splits option.splits)
    qed
  qed
qed

text \<open>The shapes.\<close>

lemma pad_along_stride1: "pad_along s 3 1 = 2"
  by (simp add: pad_along_def)

lemma pad_amounts_eq: "pad_amounts h w = (1, 1, 1, 1)"
  by (simp add: pad_amounts_def pad_along_stride1)

lemma padding_4d: "padding [n, c, h, w] = Inr [n, c, h + 2, w + 2]"
  by (simp add: padding_def pad_amounts_eq F_pad_def nat_add_distrib)

lemma padding_not_4d: "length x \<noteq> 4 \<Longrightarrow> padding x = Inl ValueError"
proof -
  assume len: "length x \<noteq> 4"
  have "drop 2 x \<noteq> [a, b]" for a b
  proof
    assume "drop 2 x = [a, b]"
    then have "length (drop 2 x) = 2" by simp
    with len show False by simp
  qed
  then show ?thesis
    by (simp add: padding_def split: list.splits)
qed

lemma ConvolutionBlock_forward_4d:
  "ConvolutionBlock_forward ci co [n, c, h, w] =
     (if co < 1 \<or> int c \<noteq> ci then Inl RuntimeError
      else Inr [n, if c = 0 then 0 else nat co, h + 2, w + 2])"
  by (auto simp: ConvolutionBlock_forward_def padding_4d Conv2d_def filter_size_def
        conv_stride_def BatchNorm2d_def relu_def)

lemma Pool2d_decoded:
  "Pool2d (2, 2) (2, 2) (1, 1) [n, c, h, w] =
     (if c = 0 \<or> h = 0 \<or> w = 0 then Inl RuntimeError
      else Inr [n, c, h div 2 + 1, w div 2 + 1])"
proof -
  have "pooling_output_size s 2 2 1 = int (s div 2 + 1)" for s
    by (simp add: pooling_output_size_def zdiv_int)
  then show ?thesis
    by (simp add: Pool2d_def Let_def nat_add_distrib)
qed

lemmas Pool2d_decoded_Suc = Pool2d_decoded [unfolded One_nat_def]

lemma Sequential_token_layers:
  "loop_error alloc prev ms = None \<Longrightarrow> \<forall>n \<in> set (integer_values ms). 1 \<le> n \<Longrightarrow>
   1 \<le> prev \<Longrightarrow> 1 \<le> h \<Longrightarrow> 1 \<le> w \<Longrightarrow>
   \<exists>c' h' w'. Sequential (token_layers alloc (2, 2) (2, 2) prev ms) [n, nat prev, h, w]
                 = Inr [n, c', h', w'] \<and> 1 \<le> c' \<and> 1 \<le> h' \<and> 1 \<le> w'"
proof (induction ms arbitrary: prev h w)
  case Nil
  then show ?case by simp
next
  case (Cons m ms)
  show ?case
  proof (cases "m = ''-''")
    case True
    with Cons.prems Cons.IH [of prev h w] show ?thesis by (simp add: integer_values_dash)
  next
    case nd: False
    show ?thesis
    proof (cases "convert m")
      case (Inl e)
      with nd Cons.prems show ?thesis by simp
    next
      case (Inr v)
      show ?thesis
      proof (cases v)
        case (PyInt k)
        with Inr nd Cons.prems(1) have a: "alloc prev k = None"
          and l: "loop_error alloc k ms = None" by (auto split: option.splits)
        from Inr PyInt have "integer_values (m # ms) = k # integer_values ms"
          by (simp add: integer_values_PyInt)
        with Cons.prems(2) have k: "1 \<le> k" and pos: "\<forall>n \<in> set (integer_values ms). 1 \<le> n"
          by simp_all
        from Cons.IH [OF l pos k, of "h + 2" "w + 2"]
        obtain c' h' w' where
          "Sequential (token_layers alloc (2, 2) (2, 2) k ms) [n, nat k, h + 2, w + 2]
             = Inr [n, c', h', w']"
          "1 \<le> c'" "1 \<le> h'" "1 \<le> w'" by auto
        with nd Inr PyInt a k Cons.prems(3) show ?thesis
          by (simp add: ConvolutionBlock_forward_4d)
      next
        case (PyFloat f)
        with Inr nd Cons.prems(1) have l: "loop_error alloc prev ms = None" by simp
        from Inr PyFloat have "integer_values (m # ms) = integer_values ms"
          by (simp add: integer_values_PyFloat)
        with Cons.prems(2) have pos: "\<forall>n \<in> set (integer_values ms). 1 \<le> n" by simp
        from Cons.IH [OF l pos Cons.prems(3), of "h div 2 + 1" "w div 2 + 1"]
        obtain c' h' w' where
          "Sequential (token_layers alloc (2, 2) (2, 2) prev ms)
             [n, nat prev, h div 2 + 1, w div 2 + 1] = Inr [n, c', h', w']"
          "1 \<le> c'" "1 \<le> h'" "1 \<le> w'" by auto
        with nd Inr PyFloat Cons.prems(3,4,5) show ?thesis
          by (simp add: Pool2d_decoded_Suc)
      qed
    qed
  qed
qed

lemma head_on_4d:
  "1 \<le> c \<Longrightarrow> 1 \<le> h \<Longrightarrow> 1 \<le> w \<Longrightarrow>
   (case view_rows [n, c, h, w] (c * h * w) of
      Inl e \<Rightarrow> Inl e
    | Inr x2 \<Rightarrow> (case Linear (last x2) 10 x2 of Inl e \<Rightarrow> Inl e | Inr y \<Rightarrow> Inr (relu y)))
   = Inr [n, 10]"
proof -
  assume "1 \<le> c" "1 \<le> h" "1 \<le> w"
  then have pos: "0 < c * h * w" by simp
  have "prod_list [n, c, h, w] = n * (c * h * w)" by simp
  with pos have "view_rows [n, c, h, w] (c * h * w) = Inr [n, c * h * w]"
    unfolding view_rows_def by (simp del: prod_list.Cons)
  then show ?thesis by (simp add: Linear_def relu_def)
qed


lemma relu_value_nonneg: "relu_value v = NaN \<or> float_ge (relu_value v) 0"
  by (cases v) simp_all

text \<open>Forward evaluation of a decoded model whose integer tokens are positive.\<close>

lemma forward_decoded:
  assumes "init alloc encoding = Inr model"
    and "\<forall>n \<in> set (integer_tokens encoding). 1 \<le> n"
    and "1 \<le> H" and "1 \<le> W"
  shows "forward model [N, 3, H, W] = Inr [N, 10]"
proof -
  let ?ms = "str_split CHR ''-'' encoding"
  let ?ls = "token_layers alloc (2, 2) (2, 2) 16 ?ms"
  from init_Inr [OF assms(1)] have ok: "loop_error alloc 16 ?ms = None"
    and net: "net model = Some (ConvolutionBlock 3 16 # ?ls)" by simp_all
  from assms(2) have pos: "\<forall>n \<in> set (integer_values ?ms). 1 \<le> n"
    by (simp add: integer_tokens_def)
  from Sequential_token_layers [OF ok pos, of "H + 2" "W + 2" N]
  obtain c' h' w' where seq: "Sequential ?ls [N, 16, H + 2, W + 2] = Inr [N, c', h', w']"
    and c': "1 \<le> c'" "1 \<le> h'" "1 \<le> w'" by auto
  have "Sequential (ConvolutionBlock 3 16 # ?ls) [N, 3, H, W] = Inr [N, c', h', w']"
    using seq by (simp add: ConvolutionBlock_forward_4d)
  with net head_on_4d [OF c', of N] show ?thesis
    by (simp add: forward_def)
qed

section \<open>The examples\<close>

text \<open>
  The conversions at the ends of the white space: a separator 0x1F in front of a digit is
  not stripped, a no-break space 0xA0 is.
\<close>

lemma py_int_separator: "py_int [CHR 0x1F, CHR ''8''] = None"
  by code_simp

lemma py_int_no_break_space: "py_int [CHR 0xA0, CHR ''8''] = Some 8"
  by code_simp

text \<open>The encoding \<^verbatim>\<open>"32-0.9-64"\<close>, evaluated once for the statements below.\<close>

lemma init_example:
  "init alloc64 ''32-0.9-64'' =
     Inr \<lparr>architecture = [ConvolutionBlock 3 16, ConvolutionBlock 16 32,
                           MaxPool2d (2, 2) (2, 2) (1, 1), ConvolutionBlock 32 64],
          enc = ''32-0.9-64'', kernel_size = (2, 2), pool_stride = (2, 2), softmax = Some 0,
          net = Some [ConvolutionBlock 3 16, ConvolutionBlock 16 32,
                      MaxPool2d (2, 2) (2, 2) (1, 1), ConvolutionBlock 32 64]\<rparr>"
  by code_simp

lemma integer_tokens_example: "integer_tokens ''32-0.9-64'' = [32, 64]"
  by code_simp

lemma str_split_example: "str_split CHR ''-'' ''32-0.9-64'' = [''32'', ''0.9'', ''64'']"
  by code_simp

lemma forward_example:
  "forward \<lparr>architecture = [ConvolutionBlock 3 16, ConvolutionBlock 16 32,
                             MaxPool2d (2, 2) (2, 2) (1, 1), ConvolutionBlock 32 64],
            enc = ''32-0.9-64'', kernel_size = (2, 2), pool_stride = (2, 2), softmax = Some 0,
            net = Some [ConvolutionBlock 3 16, ConvolutionBlock 16 32,
                        MaxPool2d (2, 2) (2, 2) (1, 1), ConvolutionBlock 32 64]\<rparr>
     [1, 3, 32, 32] = Inr [1, 10]"
proof -
  have pos: "\<forall>n \<in> set (integer_tokens ''32-0.9-64''). 1 \<le> n"
    by (simp add: integer_tokens_example)
  have "(1::nat) \<le> 32" by simp
  from forward_decoded [OF init_example pos this this] show ?thesis .
qed

text \<open>
  A channel count beyond the 64-bit range: the constructor raises before anything is
  appended for the token.
\<close>

lemma decode_huge_token:
  "decode alloc64 \<lparr>architecture = [], enc = ''99999999999999999999-abc'', kernel_size = (2, 2),
           pool_stride = (2, 2), softmax = None, net = None\<rparr> =
     (Some TypeError,
      \<lparr>architecture = [ConvolutionBlock 3 16], enc = ''99999999999999999999-abc'',
       kernel_size = (2, 2), pool_stride = (2, 2), softmax = None, net = None\<rparr>)"
  by code_simp

text \<open>A block without input channels on an input without channels.\<close>

lemma forward_no_channels: "ConvolutionBlock_forward 0 4 [1, 0, 4, 4] = Inr [1, 0, 6, 6]"
  by (simp add: ConvolutionBlock_forward_4d)

section \<open>The claims\<close>

subsection \<open>C1: the output shape of forward evaluation\<close>

text \<open>
  The encoding \<^verbatim>\<open>"0"\<close> decodes (its one token is an integer literal), but the block
  \<open>ConvolutionBlock 16 0\<close> it yields has a convolution without output channels, which the
  tensor library refuses to apply: forward evaluation on a \<open>[1, 3, 32, 32]\<close> input raises
  instead of returning a \<open>[1, 10]\<close> tensor.
\<close>

theorem C1_counterexample:
  "init alloc64 ''0'' =
     Inr \<lparr>architecture = [ConvolutionBlock 3 16, ConvolutionBlock 16 0],
          enc = ''0'', kernel_size = (2, 2), pool_stride = (2, 2), softmax = Some 0,
          net = Some [ConvolutionBlock 3 16, ConvolutionBlock 16 0]\<rparr> \<and>
   forward \<lparr>architecture = [ConvolutionBlock 3 16, ConvolutionBlock 16 0],
            enc = ''0'', kernel_size = (2, 2), pool_stride = (2, 2), softmax = Some 0,
            net = Some [ConvolutionBlock 3 16, ConvolutionBlock 16 0]\<rparr>
     [1, 3, 32, 32] = Inl RuntimeError"
proof (intro conjI)
  show "init alloc64 ''0'' =
     Inr \<lparr>architecture = [ConvolutionBlock 3 16, ConvolutionBlock 16 0],
          enc = ''0'', kernel_size = (2, 2), pool_stride = (2, 2), softmax = Some 0,
          net = Some [ConvolutionBlock 3 16, ConvolutionBlock 16 0]\<rparr>"
    by code_simp
  show "forward \<lparr>architecture = [ConvolutionBlock 3 16, ConvolutionBlock 16 0],
            enc = ''0'', kernel_size = (2, 2), pool_stride = (2, 2), softmax = Some 0,
            net = Some [ConvolutionBlock 3 16, ConvolutionBlock 16 0]\<rparr>
     [1, 3, 32, 32] = Inl RuntimeError"
    by (simp add: forward_def ConvolutionBlock_forward_4d)
qed

text \<open>
  C1, as amended. For every encoding that decodes and whose integer tokens are all at
  least 1, and every input of shape \<open>[N, 3, H, W]\<close> with \<open>H\<close> and \<open>W\<close> at least 1, forward
  evaluation of the decoded model returns a tensor of shape \<open>[N, 10]\<close>.
\<close>

theorem C1_forward_shape:
  assumes "init alloc encoding = Inr model"
    and "\<forall>n \<in> set (integer_tokens encoding). 1 \<le> n"
    and "1 \<le> H" and "1 \<le> W"
  shows "forward model [N, 3, H, W] = Inr [N, 10]"
  using assms by (rule forward_decoded)

theorem C1_forward_shape_witness:
  "integer_tokens ''32-0.9-64'' = [32, 64] \<and>
   forward \<lparr>architecture = [ConvolutionBlock 3 16, ConvolutionBlock 16 32,
                             MaxPool2d (2, 2) (2, 2) (1, 1), ConvolutionBlock 32 64],
            enc = ''32-0.9-64'', kernel_size = (2, 2), pool_stride = (2, 2), softmax = Some 0,
            net = Some [ConvolutionBlock 3 16, ConvolutionBlock 16 32,
                        MaxPool2d (2, 2) (2, 2) (1, 1), ConvolutionBlock 32 64]\<rparr>
     [1, 3, 32, 32] = Inr [1, 10]"
proof -
  have pos: "\<forall>n \<in> set (integer_tokens ''32-0.9-64''). 1 \<le> n"
    by (simp add: integer_tokens_example)
  have "(1::nat) \<le> 32" by simp
  from C1_forward_shape [OF init_example pos this this, of 1] integer_tokens_example
  show ?thesis by (intro conjI)
qed

subsection \<open>C2: floating-point tokens become pooling layers\<close>

text \<open>
  C2. In every model that decodes, the token at position \<open>i\<close> of the encoding, when it
  contains a decimal point, is accepted by \<^verbatim>\<open>float\<close> and the layer at position \<open>i + 1\<close>
  (the stem is at position 0) is a pooling layer with kernel 2 by 2, stride 2 by 2 and
  padding 1 by 1: a max-pooling layer if the value of the token is greater than 0.5, an
  average-pooling layer otherwise. In particular \<^verbatim>\<open>"32-0.9-64"\<close> decodes to
  \<open>[Conv(3\<rightarrow>16), Conv(16\<rightarrow>32), MaxPool, Conv(32\<rightarrow>64)]\<close>.
\<close>

theorem C2_float_token_pooling:
  "(\<forall>alloc encoding model i.
      init alloc encoding = Inr model \<and> i < length (str_split CHR ''-'' encoding) \<and>
      CHR ''.'' \<in> set (str_split CHR ''-'' encoding ! i) \<longrightarrow>
      (\<exists>v. py_float (str_split CHR ''-'' encoding ! i) = Some v \<and>
           architecture model ! Suc i =
             (if float_gt v (1 / 2) then MaxPool2d (2, 2) (2, 2) (1, 1)
              else AvgPool2d (2, 2) (2, 2) (1, 1)))) \<and>
   (\<exists>model. init alloc64 ''32-0.9-64'' = Inr model \<and>
      architecture model = [ConvolutionBlock 3 16, ConvolutionBlock 16 32,
                            MaxPool2d (2, 2) (2, 2) (1, 1), ConvolutionBlock 32 64])"
proof (intro conjI allI impI)
  fix alloc encoding model i
  assume a: "init alloc encoding = Inr model \<and> i < length (str_split CHR ''-'' encoding) \<and>
      CHR ''.'' \<in> set (str_split CHR ''-'' encoding ! i)"
  let ?ms = "str_split CHR ''-'' encoding"
  from a init_Inr [of alloc encoding model] have ok: "loop_error alloc 16 ?ms = None"
    and arch: "architecture model =
      ConvolutionBlock 3 16 # token_layers alloc (2, 2) (2, 2) 16 ?ms" by simp_all
  from a have i: "i < length ?ms" and p: "CHR ''.'' \<in> set (?ms ! i)" by simp_all
  from token_layers_float [OF ok no_dash_token i p] arch
  show "\<exists>v. py_float (?ms ! i) = Some v \<and>
           architecture model ! Suc i =
             (if float_gt v (1 / 2) then MaxPool2d (2, 2) (2, 2) (1, 1)
              else AvgPool2d (2, 2) (2, 2) (1, 1))"
    by simp
next
  show "\<exists>model. init alloc64 ''32-0.9-64'' = Inr model \<and>
      architecture model = [ConvolutionBlock 3 16, ConvolutionBlock 16 32,
                            MaxPool2d (2, 2) (2, 2) (1, 1), ConvolutionBlock 32 64]"
    by (simp add: init_example)
qed

theorem C2_float_token_pooling_witness:
  "str_split CHR ''-'' ''32-0.9-64'' ! 1 = ''0.9'' \<and>
   (\<exists>v. py_float ''0.9'' = Some v \<and>
      [ConvolutionBlock 3 16, ConvolutionBlock 16 32,
       MaxPool2d (2, 2) (2, 2) (1, 1), ConvolutionBlock 32 64] ! Suc 1 =
      (if float_gt v (1 / 2) then MaxPool2d (2, 2) (2, 2) (1, 1)
       else AvgPool2d (2, 2) (2, 2) (1, 1)))"
proof -
  have tok: "str_split CHR ''-'' ''32-0.9-64'' ! 1 = ''0.9''"
    by (simp add: str_split_example)
  have hyp: "init alloc64 ''32-0.9-64'' =
      Inr \<lparr>architecture = [ConvolutionBlock 3 16, ConvolutionBlock 16 32,
                           MaxPool2d (2, 2) (2, 2) (1, 1), ConvolutionBlock 32 64],
          enc = ''32-0.9-64'', kernel_size = (2, 2), pool_stride = (2, 2), softmax = Some 0,
          net = Some [ConvolutionBlock 3 16, ConvolutionBlock 16 32,
                      MaxPool2d (2, 2) (2, 2) (1, 1), ConvolutionBlock 32 64]\<rparr> \<and>
      1 < length (str_split CHR ''-'' ''32-0.9-64'') \<and>
      CHR ''.'' \<in> set (str_split CHR ''-'' ''32-0.9-64'' ! 1)"
    by (simp add: init_example str_split_example)
  from C2_float_token_pooling have "\<forall>alloc encoding model i.
      init alloc encoding = Inr model \<and> i < length (str_split CHR ''-'' encoding) \<and>
      CHR ''.'' \<in> set (str_split CHR ''-'' encoding ! i) \<longrightarrow>
      (\<exists>v. py_float (str_split CHR ''-'' encoding ! i) = Some v \<and>
           architecture model ! Suc i =
             (if float_gt v (1 / 2) then MaxPool2d (2, 2) (2, 2) (1, 1)
              else AvgPool2d (2, 2) (2, 2) (1, 1)))" by (rule conjunct1)
  from this [rule_format, OF hyp] tok show ?thesis by simp
qed

subsection \<open>C3: the stem comes first\<close>

text \<open>
  C3. For every encoding on which decoding succeeds, the layer list is not empty and
  its first element is the stem, a convolution block with 3 input channels and 16 output
  channels.
\<close>

theorem C3_stem_first:
  assumes "init alloc encoding = Inr model"
  shows "architecture model \<noteq> [] \<and> hd (architecture model) = ConvolutionBlock 3 16 \<and>
         c_in (hd (architecture model)) = 3 \<and> c_out (hd (architecture model)) = 16"
  using init_Inr(3) [OF assms] by simp

theorem C3_stem_first_witness:
  "hd [ConvolutionBlock 3 16, ConvolutionBlock 16 32,
       MaxPool2d (2, 2) (2, 2) (1, 1), ConvolutionBlock 32 64] = ConvolutionBlock 3 16"
  using C3_stem_first [OF init_example] by simp

subsection \<open>C4: the channel counts form a chain\<close>

text \<open>
  C4. For every encoding that decodes, with the integer tokens \<open>a, b, c, ...\<close> in order,
  the convolution blocks of the layer list are the stem \<open>3 \<rightarrow> 16\<close> followed by exactly
  \<open>16 \<rightarrow> a, a \<rightarrow> b, b \<rightarrow> c, ...\<close>, whatever pooling tokens stand between them.
\<close>

theorem C4_channel_chain:
  assumes "init alloc encoding = Inr model"
  shows "conv_channels (architecture model) = (3, 16) # chain 16 (integer_tokens encoding)"
proof -
  let ?ms = "str_split CHR ''-'' encoding"
  from init_Inr [OF assms] have ok: "loop_error alloc 16 ?ms = None"
    and arch: "architecture model =
      ConvolutionBlock 3 16 # token_layers alloc (2, 2) (2, 2) 16 ?ms" by simp_all
  from token_layers_conv_channels [OF ok] arch show ?thesis
    by (simp add: integer_tokens_def)
qed

theorem C4_channel_chain_witness:
  "conv_channels [ConvolutionBlock 3 16, ConvolutionBlock 16 32,
       MaxPool2d (2, 2) (2, 2) (1, 1), ConvolutionBlock 32 64] = [(3, 16), (16, 32), (32, 64)]"
  using C4_channel_chain [OF init_example] by (simp add: integer_tokens_example)

subsection \<open>C5: the padding of a convolution block\<close>

text \<open>
  C5. For every input of height \<open>H\<close> and width \<open>W\<close> the total padding is 2 along each
  axis, split into 1 before and 1 after, so the padding step returns the spatial size
  \<open>(H + 2, W + 2)\<close>; after the convolution with its own padding of 1, the 3 by 3 filter
  and stride 1, the output of the block has the spatial size \<open>(H + 2, W + 2)\<close>. (The
  block produces an output when the channel count of the input is \<open>c_in\<close> and \<open>c_out\<close> is
  at least 1; the output has \<open>c_out\<close> channels, or none when the input has none.)
\<close>

theorem C5_padding_law:
  "pad_along H 3 1 = 2 \<and> pad_along W 3 1 = 2 \<and> pad_amounts H W = (1, 1, 1, 1) \<and>
   padding [N, C, H, W] = Inr [N, C, H + 2, W + 2] \<and>
   ConvolutionBlock_forward ci co [N, C, H, W] =
     (if co < 1 \<or> int C \<noteq> ci then Inl RuntimeError
      else Inr [N, if C = 0 then 0 else nat co, H + 2, W + 2])"
  by (simp only: pad_along_stride1 pad_amounts_eq padding_4d ConvolutionBlock_forward_4d simp_thms)

theorem C5_padding_law_witness:
  "pad_amounts 32 32 = (1, 1, 1, 1) \<and>
   ConvolutionBlock_forward 3 16 [1, 3, 32, 32] = Inr [1, 16, 34, 34]"
  using C5_padding_law [of 32 32 1 3 3 16] by simp

subsection \<open>C6: the output size of a decoded pooling layer\<close>

text \<open>
  C6. Every layer of a decoded model that is not a convolution block is a max-pooling or
  an average-pooling layer with kernel 2, stride 2 and padding 1, and on an input
  \<open>[N, C, H, W]\<close> its output has the spatial sizes \<open>floor ((S + 2 * 1 - 2) / 2) + 1\<close> for
  \<open>S = H\<close> and \<open>S = W\<close>. (The tensor library gives no output for an input with an empty
  channel or spatial dimension.)
\<close>

theorem C6_pooling_size:
  assumes "init alloc encoding = Inr model"
    and "l \<in> set (architecture model)"
    and "\<forall>ci co. l \<noteq> ConvolutionBlock ci co"
  shows "(l = MaxPool2d (2, 2) (2, 2) (1, 1) \<or> l = AvgPool2d (2, 2) (2, 2) (1, 1)) \<and>
         layer_forward l [N, C, H, W] =
           (if C = 0 \<or> H = 0 \<or> W = 0 then Inl RuntimeError
            else Inr [N, C, (H + 2 * 1 - 2) div 2 + 1, (W + 2 * 1 - 2) div 2 + 1])"
proof -
  let ?ms = "str_split CHR ''-'' encoding"
  from init_Inr(3) [OF assms(1)] assms(2,3)
  have "l \<in> set (token_layers alloc (2, 2) (2, 2) 16 ?ms)" by auto
  from token_layers_kinds [OF this] assms(3)
  have kind: "l = MaxPool2d (2, 2) (2, 2) (1, 1) \<or> l = AvgPool2d (2, 2) (2, 2) (1, 1)" by auto
  then show ?thesis by (auto simp: Pool2d_decoded_Suc)
qed

theorem C6_pooling_size_witness:
  "layer_forward (MaxPool2d (2, 2) (2, 2) (1, 1)) [1, 32, 36, 36] = Inr [1, 32, 19, 19]"
proof -
  have mem: "MaxPool2d (2, 2) (2, 2) (1, 1) \<in> set (architecture
      \<lparr>architecture = [ConvolutionBlock 3 16, ConvolutionBlock 16 32,
                           MaxPool2d (2, 2) (2, 2) (1, 1), ConvolutionBlock 32 64],
          enc = ''32-0.9-64'', kernel_size = (2, 2), pool_stride = (2, 2), softmax = Some 0,
          net = Some [ConvolutionBlock 3 16, ConvolutionBlock 16 32,
                      MaxPool2d (2, 2) (2, 2) (1, 1), ConvolutionBlock 32 64]\<rparr>)"
    by simp
  have nc: "\<forall>ci co. MaxPool2d (2, 2) (2, 2) (1, 1) \<noteq> ConvolutionBlock ci co" by simp
  from C6_pooling_size [OF init_example mem nc, of 1 32 36 36] show ?thesis by simp
qed

subsection \<open>C7: empty tokens\<close>

text \<open>
  C7 says that empty tokens are skipped and that the empty encoding decodes to the stem
  alone. The code does otherwise: \<^verbatim>\<open>''.split('-')\<close> is \<^verbatim>\<open>['']\<close>, the guard
  \<^verbatim>\<open>if m == '-': continue\<close> never holds for a token cut at \<^verbatim>\<open>'-'\<close>, and \<^verbatim>\<open>int('')\<close>
  raises \<^verbatim>\<open>ValueError\<close>. So the empty encoding, and an encoding with a doubled
  delimiter, do not decode: once the blocks before the empty token are built, the
  constructor raises \<^verbatim>\<open>ValueError\<close>.
\<close>

theorem C7_empty_token_fails:
  "str_split CHR ''-'' '''' = [''''] \<and> py_int '''' = None \<and>
   init alloc '''' = (case alloc 3 16 of Some e \<Rightarrow> Inl e | None \<Rightarrow> Inl ValueError) \<and>
   init alloc ''32--64'' =
     (case alloc 3 16 of
        Some e \<Rightarrow> Inl e
      | None \<Rightarrow> (case alloc 16 32 of Some e \<Rightarrow> Inl e | None \<Rightarrow> Inl ValueError)) \<and>
   init alloc64 '''' = Inl ValueError \<and> init alloc64 ''32--64'' = Inl ValueError"
proof -
  have s1: "str_split CHR ''-'' '''' = ['''']" by simp
  have s2: "str_split CHR ''-'' ''32--64'' = [''32'', '''', ''64'']" by code_simp
  have i0: "py_int '''' = None" by code_simp
  have c0: "convert '''' = Inl ValueError" by code_simp
  have c32: "convert ''32'' = Inr (PyInt 32)" by code_simp
  have a1: "alloc64 3 16 = None" by (simp add: alloc64_def)
  have a2: "alloc64 16 32 = None" by (simp add: alloc64_def)
  have e1: "init a '''' = (case a 3 16 of Some e \<Rightarrow> Inl e | None \<Rightarrow> Inl ValueError)" for a
    by (simp add: init_eq c0 split: option.splits)
  have e2: "init a ''32--64'' =
     (case a 3 16 of
        Some e \<Rightarrow> Inl e
      | None \<Rightarrow> (case a 16 32 of Some e \<Rightarrow> Inl e | None \<Rightarrow> Inl ValueError))" for a
    unfolding init_eq s2 by (simp add: c0 c32 split: option.splits)
  show ?thesis
    using s1 i0 e1 [of alloc] e2 [of alloc] e1 [of alloc64] e2 [of alloc64]
    by (simp only: a1 a2 option.case simp_thms)
qed

subsection \<open>C8: a malformed token\<close>




subsection \<open>C9: the failures of a convolution block\<close>

text \<open>
  A block with \<open>c_out = 0\<close> (the decoder builds one for the token \<^verbatim>\<open>0\<close>) fails on an
  input of four dimensions with the right channel count: the tensor library refuses a
  convolution without output channels.
\<close>

theorem C9_counterexample:
  "length [1, 3, 4, 4 :: nat] = 4 \<and> int ([1, 3, 4, 4] ! 1) = c_in (ConvolutionBlock 3 0) \<and>
   layer_forward (ConvolutionBlock 3 0) [1, 3, 4, 4] = Inl RuntimeError"
  by (simp add: ConvolutionBlock_forward_4d)

text \<open>
  C9, as amended. Forward evaluation of a convolution block raises \<^verbatim>\<open>ValueError\<close> (the
  shape error of the specification, from the unpacking in \<^verbatim>\<open>padding\<close>) whenever the input
  does not have exactly 4 dimensions, raises \<^verbatim>\<open>RuntimeError\<close> (the channel mismatch error
  of the specification, from the convolution) whenever the input has 4 dimensions and its
  channel count is not \<open>c_in\<close>, and otherwise, when \<open>c_out\<close> is at least 1, succeeds: it
  produces an output tensor.
\<close>

theorem C9_forward_errors:
  "(length x \<noteq> 4 \<longrightarrow> ConvolutionBlock_forward ci co x = Inl ValueError) \<and>
   (length x = 4 \<and> int (x ! 1) \<noteq> ci \<longrightarrow> ConvolutionBlock_forward ci co x = Inl RuntimeError) \<and>
   (length x = 4 \<and> int (x ! 1) = ci \<and> 1 \<le> co \<longrightarrow>
      (\<exists>y. ConvolutionBlock_forward ci co x = Inr y))"
proof (intro conjI impI)
  assume "length x \<noteq> 4"
  then show "ConvolutionBlock_forward ci co x = Inl ValueError"
    by (simp add: ConvolutionBlock_forward_def padding_not_4d)
next
  assume a: "length x = 4 \<and> int (x ! 1) \<noteq> ci"
  then obtain n c h w where x: "x = [n, c, h, w]"
    by (auto simp: length_Suc_conv numeral_eq_Suc)
  with a show "ConvolutionBlock_forward ci co x = Inl RuntimeError"
    by (simp add: ConvolutionBlock_forward_4d)
next
  assume a: "length x = 4 \<and> int (x ! 1) = ci \<and> 1 \<le> co"
  then obtain n c h w where x: "x = [n, c, h, w]"
    by (auto simp: length_Suc_conv numeral_eq_Suc)
  with a show "\<exists>y. ConvolutionBlock_forward ci co x = Inr y"
    by (simp add: ConvolutionBlock_forward_4d)
qed

theorem C9_forward_errors_witness:
  "ConvolutionBlock_forward 3 16 [3, 5, 7] = Inl ValueError \<and>
   ConvolutionBlock_forward 3 16 [1, 4, 5, 7] = Inl RuntimeError \<and>
   (\<exists>y. ConvolutionBlock_forward 3 16 [1, 3, 5, 7] = Inr y) \<and>
   (\<exists>y. ConvolutionBlock_forward 0 4 [1, 0, 4, 4] = Inr y)"
  using C9_forward_errors [of "[3, 5, 7]" 3 16] C9_forward_errors [of "[1, 4, 5, 7]" 3 16]
    C9_forward_errors [of "[1, 3, 5, 7]" 3 16] C9_forward_errors [of "[1, 0, 4, 4]" 0 4]
  by simp

subsection \<open>C10: the elements of the output\<close>

text \<open>
  The activation leaves a NaN as it is, and a NaN is not nonnegative: \<^verbatim>\<open>nan >= 0\<close> is
  false. When the elements of \<^verbatim>\<open>fc(x)\<close> are NaN, as they are for an input tensor that holds
  a NaN, forward evaluation succeeds and returns NaN elements.
\<close>

theorem C10_counterexample:
  "forward_output
     \<lparr>architecture = [ConvolutionBlock 3 16, ConvolutionBlock 16 32,
                      MaxPool2d (2, 2) (2, 2) (1, 1), ConvolutionBlock 32 64],
      enc = ''32-0.9-64'', kernel_size = (2, 2), pool_stride = (2, 2), softmax = Some 0,
      net = Some [ConvolutionBlock 3 16, ConvolutionBlock 16 32,
                  MaxPool2d (2, 2) (2, 2) (1, 1), ConvolutionBlock 32 64]\<rparr>
     [1, 3, 32, 32] [NaN, NaN, NaN, NaN, NaN, NaN, NaN, NaN, NaN, NaN] =
     Inr \<lparr>dims = [1, 10], elems = [NaN, NaN, NaN, NaN, NaN, NaN, NaN, NaN, NaN, NaN]\<rparr> \<and>
   \<not> float_ge NaN 0"
  unfolding forward_output_def forward_example by (simp add: F_relu_def)

text \<open>
  C10, as amended. For every input on which forward evaluation of the decoded model
  succeeds, every element of the returned tensor is nonnegative or NaN, because the last
  operation on the forward path is the rectified-linear activation (the softmax member
  is never applied); the shape of the tensor is the one forward evaluation gives.
\<close>

theorem C10_relu_output:
  assumes "forward_output self x fc_x = Inr y"
  shows "(\<forall>v \<in> set (elems y). v = NaN \<or> float_ge v 0) \<and>
         elems y = map relu_value fc_x \<and> forward self x = Inr (dims y)"
proof -
  from assms obtain s where s: "forward self x = Inr s"
    and y: "y = F_relu \<lparr>dims = s, elems = fc_x\<rparr>"
    by (auto simp: forward_output_def split: sum.splits)
  from y have e: "elems y = map relu_value fc_x" and d: "dims y = s"
    by (simp_all add: F_relu_def)
  from e relu_value_nonneg have "\<forall>v \<in> set (elems y). v = NaN \<or> float_ge v 0" by auto
  with e d s show ?thesis by simp
qed

theorem C10_relu_output_witness:
  "forward_output
     \<lparr>architecture = [ConvolutionBlock 3 16, ConvolutionBlock 16 32,
                      MaxPool2d (2, 2) (2, 2) (1, 1), ConvolutionBlock 32 64],
      enc = ''32-0.9-64'', kernel_size = (2, 2), pool_stride = (2, 2), softmax = Some 0,
      net = Some [ConvolutionBlock 3 16, ConvolutionBlock 16 32,
                  MaxPool2d (2, 2) (2, 2) (1, 1), ConvolutionBlock 32 64]\<rparr>
     [1, 3, 32, 32]
     [Finite (- 1), Finite 2, NaN, NegInf, PosInf, Finite 0, Finite 3, Finite (- 4),
      Finite (1 / 2), Finite 7] =
     Inr \<lparr>dims = [1, 10],
          elems = [Finite 0, Finite 2, NaN, Finite 0, PosInf, Finite 0, Finite 3, Finite 0,
                   Finite (1 / 2), Finite 7]\<rparr> \<and>
   float_ge (Finite 0) 0 \<and> float_ge (Finite 2) 0 \<and> float_ge PosInf 0"
proof -
  have out: "forward_output
     \<lparr>architecture = [ConvolutionBlock 3 16, ConvolutionBlock 16 32,
                      MaxPool2d (2, 2) (2, 2) (1, 1), ConvolutionBlock 32 64],
      enc = ''32-0.9-64'', kernel_size = (2, 2), pool_stride = (2, 2), softmax = Some 0,
      net = Some [ConvolutionBlock 3 16, ConvolutionBlock 16 32,
                  MaxPool2d (2, 2) (2, 2) (1, 1), ConvolutionBlock 32 64]\<rparr>
     [1, 3, 32, 32]
     [Finite (- 1), Finite 2, NaN, NegInf, PosInf, Finite 0, Finite 3, Finite (- 4),
      Finite (1 / 2), Finite 7] =
     Inr \<lparr>dims = [1, 10],
          elems = [Finite 0, Finite 2, NaN, Finite 0, PosInf, Finite 0, Finite 3, Finite 0,
                   Finite (1 / 2), Finite 7]\<rparr>"
    unfolding forward_output_def forward_example by (simp add: F_relu_def)
  from C10_relu_output [OF out] out show ?thesis by simp
qed

end
